theory Spec2Isabelle
  imports Main
begin

section \<open>Data model\<close>

text \<open>
  The SKU of \<^verbatim>\<open>sku.go\<close> is \<^verbatim>\<open>type SKU compute.ResourceSku\<close>. The record types of the
  provider SDK are not part of the repository sources; a Go pointer field is an
  \<open>option\<close> (nil is \<open>None\<close>), a pointer to a slice an optional list.
\<close>

text \<open>Modelled from the spec: the SDK declaration of a capability, a (name, value) pair of
  optional strings.\<close>

record ResourceSkuCapabilities =
  cap_Name :: "string option"
  cap_Value :: "string option"

text \<open>Modelled from the spec: the SDK declaration of the per-zone capability overrides
  ("zone details") of a location.\<close>

record ResourceSkuZoneDetails =
  zd_Name :: "string list option"
  zd_Capabilities :: "ResourceSkuCapabilities list option"

text \<open>Modelled from the spec: the SDK declaration of a per-location record: a location id,
  its availability zones and optional zone details.\<close>

record ResourceSkuLocationInfo =
  li_Location :: "string option"
  li_Zones :: "string list option"
  li_ZoneDetails :: "ResourceSkuZoneDetails list option"

text \<open>Modelled from the spec: the SDK declaration of the optional zone-level detail of a
  restriction.\<close>

record ResourceSkuRestrictionInfo =
  ri_Locations :: "string list option"
  ri_Zones :: "string list option"

text \<open>Modelled from the spec: the SDK declaration of the restriction kind, a string type of
  which \<^verbatim>\<open>compute.Location\<close> is the location-level kind.\<close>

type_synonym ResourceSkuRestrictionsType = string

definition compute_Location :: ResourceSkuRestrictionsType where
  "compute_Location = ''Location''"

definition compute_Zone :: ResourceSkuRestrictionsType where
  "compute_Zone = ''Zone''"

text \<open>Modelled from the spec: the SDK declaration of a restriction record: its kind, the
  values it applies to, and the optional zone-level detail.\<close>

record ResourceSkuRestrictions =
  r_Type :: ResourceSkuRestrictionsType
  r_Values :: "string list option"
  r_RestrictionInfo :: "ResourceSkuRestrictionInfo option"

text \<open>Modelled from the spec: the SDK declaration of one catalog entry, with the six
  attributes the accessor reads.\<close>

record ResourceSku =
  ResourceType :: "string option"
  Name :: "string option"
  Locations :: "string list option"
  LocationInfo :: "ResourceSkuLocationInfo list option"
  Capabilities :: "ResourceSkuCapabilities list option"
  Restrictions :: "ResourceSkuRestrictions list option"

type_synonym SKU = ResourceSku

text \<open>The conversion \<^verbatim>\<open>SKU(value)\<close> between the two named struct types copies the value.\<close>

definition SKU :: "ResourceSku \<Rightarrow> SKU" where
  "SKU v = v"

text \<open>The zero value of the struct: every pointer nil, the restriction kind empty.\<close>

definition zeroSKU :: SKU where
  "zeroSKU = \<lparr>ResourceType = None, Name = None, Locations = None, LocationInfo = None,
     Capabilities = None, Restrictions = None\<rparr>"

section \<open>Errors and panics\<close>

text \<open>\<^verbatim>\<open>strconv.NumError\<close> of the Go standard library: the failing function, the input and
  the cause.\<close>

datatype strconv_cause = ErrSyntax | ErrRange

datatype NumError = NumError string string strconv_cause

text \<open>The error values of \<^verbatim>\<open>sku.go\<close>: its three error structs, \<^verbatim>\<open>fmt.Errorf\<close> with a
  constant message, and \<^verbatim>\<open>errors.Wrapf\<close> of a parse failure with the formatted message.\<close>

datatype error =
    ErrCapabilityNotFound string
  | ErrCapabilityValueNil string
  | ErrCapabilityValueParse string string NumError
  | Errorf string
  | Wrapf NumError string

text \<open>A nil pointer dereference aborts the call with a run-time panic.\<close>

datatype panic = NilPointerDereference

section \<open>Name, resource type and single location\<close>

definition GetResourceType :: "SKU \<Rightarrow> string" where
  "GetResourceType s = (case ResourceType s of None \<Rightarrow> '''' | Some t \<Rightarrow> t)"

definition GetName :: "SKU \<Rightarrow> string" where
  "GetName s = (case Name s of None \<Rightarrow> '''' | Some n \<Rightarrow> n)"

definition GetLocation :: "SKU \<Rightarrow> string \<times> error option" where
  "GetLocation s =
     (case Locations s of
        None \<Rightarrow> ('''', Some (Errorf ''ErrSKULocationNil''))
      | Some ls \<Rightarrow>
          if length ls < 1 then ('''', Some (Errorf ''ErrNoSKULocations''))
          else if length ls > 1 then ('''', Some (Errorf ''ErrMultipleSKULocations''))
          else (ls ! 0, None))"

section \<open>Normalized string comparison\<close>

text \<open>Modelled from the spec: \<^verbatim>\<open>stringEqualsWithNormalization\<close> is called throughout
  \<^verbatim>\<open>sku.go\<close> but its body is not among the sources. The spec's normalization rule: two
  strings match if they are equal after lower-casing and stripping separator characters
  (underscores, hyphens, spaces). Lower-casing is that of the ASCII letters.\<close>

definition toLower :: "char \<Rightarrow> char" where
  "toLower c =
     (case map_of (zip ''ABCDEFGHIJKLMNOPQRSTUVWXYZ'' ''abcdefghijklmnopqrstuvwxyz'') c of
        None \<Rightarrow> c
      | Some l \<Rightarrow> l)"

definition isSeparator :: "char \<Rightarrow> bool" where
  "isSeparator c = (c = CHR ''_'' \<or> c = CHR ''-'' \<or> c = CHR '' '')"

definition normalizeString :: "string \<Rightarrow> string" where
  "normalizeString input = filter (\<lambda>c. \<not> isSeparator c) (map toLower input)"

definition stringEqualsWithNormalization :: "string \<Rightarrow> string \<Rightarrow> bool" where
  "stringEqualsWithNormalization a b = (normalizeString a = normalizeString b)"

section \<open>Parsing integers\<close>

text \<open>\<^verbatim>\<open>strconv.ParseUint(s, 10, 64)\<close> and \<^verbatim>\<open>strconv.ParseInt(s, 10, 64)\<close> of the Go standard
  library, as \<^verbatim>\<open>sku.go\<close> calls them: base 10, no underscores, an optional sign for
  ParseInt. The unsigned accumulator is a \<open>nat\<close> with the 64-bit wrap-around of the
  addition written out; the multiplication is guarded by the cutoff and cannot wrap. Both
  return the value together with the error, as in Go.\<close>

definition maxUint64 :: nat where
  "maxUint64 = 2 ^ 64 - 1"

definition digit :: "char \<Rightarrow> nat option" where
  "digit c = map_of (zip ''0123456789'' [0, 1, 2, 3, 4, 5, 6, 7, 8, 9]) c"

fun ParseUint_loop :: "string \<Rightarrow> string \<Rightarrow> nat \<Rightarrow> nat \<times> NumError option" where
  "ParseUint_loop s0 [] n = (n, None)"
| "ParseUint_loop s0 (c # cs) n =
     (case digit c of
        None \<Rightarrow> (0, Some (NumError ''ParseUint'' s0 ErrSyntax))
      | Some d \<Rightarrow>
          if n \<ge> maxUint64 div 10 + 1 then (maxUint64, Some (NumError ''ParseUint'' s0 ErrRange))
          else
            let n1 = (n * 10 + d) mod 2 ^ 64 in
            if n1 < n * 10 \<or> n1 > maxUint64
            then (maxUint64, Some (NumError ''ParseUint'' s0 ErrRange))
            else ParseUint_loop s0 cs n1)"

definition ParseUint :: "string \<Rightarrow> nat \<times> NumError option" where
  "ParseUint s =
     (if s = '''' then (0, Some (NumError ''ParseUint'' s ErrSyntax))
      else ParseUint_loop s s 0)"

definition ParseInt :: "string \<Rightarrow> int \<times> NumError option" where
  "ParseInt s0 =
     (case s0 of
        [] \<Rightarrow> (0, Some (NumError ''ParseInt'' s0 ErrSyntax))
      | c # cs \<Rightarrow>
          let neg = (c = CHR ''-'');
              s = (if c = CHR ''+'' \<or> c = CHR ''-'' then cs else s0);
              (un, err) = ParseUint s;
              cutoff = (2 ^ 63 :: nat)
          in case err of
               Some (NumError f n ErrSyntax) \<Rightarrow> (0, Some (NumError ''ParseInt'' s0 ErrSyntax))
             | _ \<Rightarrow>
                 if \<not> neg \<and> un \<ge> cutoff then (int (cutoff - 1), Some (NumError ''ParseInt'' s0 ErrRange))
                 else if neg \<and> un > cutoff then (- int cutoff, Some (NumError ''ParseInt'' s0 ErrRange))
                 else (if neg then - int un else int un, None))"

section \<open>Capabilities\<close>

definition CapabilitySupported :: string where
  "CapabilitySupported = ''True''"

definition CapabilityUnsupported :: string where
  "CapabilityUnsupported = ''False''"

definition VCPUs :: string where
  "VCPUs = ''vCPUs''"

definition MemoryGB :: string where
  "MemoryGB = ''MemoryGB''"

fun GetCapabilityIntegerQuantity_loop ::
  "string \<Rightarrow> ResourceSkuCapabilities list \<Rightarrow> int \<times> error option" where
  "GetCapabilityIntegerQuantity_loop name [] = (- 1, Some (ErrCapabilityNotFound name))"
| "GetCapabilityIntegerQuantity_loop name (capability # rest) =
     (if cap_Name capability = Some name then
        (case cap_Value capability of
           Some v \<Rightarrow>
             (let (intVal, err) = ParseInt v
              in case err of
                   Some e \<Rightarrow> (- 1, Some (ErrCapabilityValueParse name v e))
                 | None \<Rightarrow> (intVal, None))
         | None \<Rightarrow> (- 1, Some (ErrCapabilityValueNil name)))
      else GetCapabilityIntegerQuantity_loop name rest)"

definition GetCapabilityIntegerQuantity :: "SKU \<Rightarrow> string \<Rightarrow> int \<times> error option" where
  "GetCapabilityIntegerQuantity s name =
     (case Capabilities s of
        None \<Rightarrow> (- 1, Some (ErrCapabilityNotFound name))
      | Some cs \<Rightarrow> GetCapabilityIntegerQuantity_loop name cs)"

text \<open>\<^verbatim>\<open>strconv.ParseFloat(s, 64)\<close> and the type \<^verbatim>\<open>float64\<close> are parameters: any parser
  into any type with a \<open>- 1\<close>.\<close>

fun GetCapabilityFloatQuantity_loop ::
  "(string \<Rightarrow> 'f \<times> NumError option) \<Rightarrow> string \<Rightarrow> ResourceSkuCapabilities list
     \<Rightarrow> ('f :: {one, uminus}) \<times> error option" where
  "GetCapabilityFloatQuantity_loop ParseFloat name [] = (- 1, Some (ErrCapabilityNotFound name))"
| "GetCapabilityFloatQuantity_loop ParseFloat name (capability # rest) =
     (if cap_Name capability = Some name then
        (case cap_Value capability of
           Some v \<Rightarrow>
             (let (intVal, err) = ParseFloat v
              in case err of
                   Some e \<Rightarrow> (- 1, Some (ErrCapabilityValueParse name v e))
                 | None \<Rightarrow> (intVal, None))
         | None \<Rightarrow> (- 1, Some (ErrCapabilityValueNil name)))
      else GetCapabilityFloatQuantity_loop ParseFloat name rest)"

definition GetCapabilityFloatQuantity ::
  "(string \<Rightarrow> 'f \<times> NumError option) \<Rightarrow> SKU \<Rightarrow> string \<Rightarrow> ('f :: {one, uminus}) \<times> error option" where
  "GetCapabilityFloatQuantity ParseFloat s name =
     (case Capabilities s of
        None \<Rightarrow> (- 1, Some (ErrCapabilityNotFound name))
      | Some cs \<Rightarrow> GetCapabilityFloatQuantity_loop ParseFloat name cs)"

definition VCPU :: "SKU \<Rightarrow> int \<times> error option" where
  "VCPU s = GetCapabilityIntegerQuantity s VCPUs"

text \<open>The test \<^verbatim>\<open>capability.Name != nil && stringEqualsWithNormalization(*capability.Name, name)\<close>
  of the three Has-functions.\<close>

definition nameMatches :: "ResourceSkuCapabilities \<Rightarrow> string \<Rightarrow> bool" where
  "nameMatches capability name =
     (case cap_Name capability of
        None \<Rightarrow> False
      | Some n \<Rightarrow> stringEqualsWithNormalization n name)"

fun HasCapability_loop :: "string \<Rightarrow> ResourceSkuCapabilities list \<Rightarrow> bool" where
  "HasCapability_loop name [] = False"
| "HasCapability_loop name (capability # rest) =
     (if nameMatches capability name then
        (case cap_Value capability of
           None \<Rightarrow> False
         | Some v \<Rightarrow> stringEqualsWithNormalization v CapabilitySupported)
      else HasCapability_loop name rest)"

definition HasCapability :: "SKU \<Rightarrow> string \<Rightarrow> bool" where
  "HasCapability s name =
     (case Capabilities s of
        None \<Rightarrow> False
      | Some cs \<Rightarrow> HasCapability_loop name cs)"

text \<open>The message of \<^verbatim>\<open>errors.Wrapf(err, "failed to parse string '%s' as int64", v)\<close>.\<close>

definition wrapMessage :: "string \<Rightarrow> string" where
  "wrapMessage v = ''failed to parse string '' @ [CHR 0x27] @ v @ [CHR 0x27] @ '' as int64''"

fun HasCapabilityWithCapacity_loop ::
  "string \<Rightarrow> int \<Rightarrow> ResourceSkuCapabilities list \<Rightarrow> bool \<times> error option" where
  "HasCapabilityWithCapacity_loop name value [] = (False, None)"
| "HasCapabilityWithCapacity_loop name value (capability # rest) =
     (if nameMatches capability name then
        (case cap_Value capability of
           Some v \<Rightarrow>
             (let (intVal, err) = ParseInt v
              in case err of
                   Some e \<Rightarrow> (False, Some (Wrapf e (wrapMessage v)))
                 | None \<Rightarrow> if intVal \<ge> value then (True, None) else (False, None))
         | None \<Rightarrow> (False, None))
      else HasCapabilityWithCapacity_loop name value rest)"

definition HasCapabilityWithCapacity :: "SKU \<Rightarrow> string \<Rightarrow> int \<Rightarrow> bool \<times> error option" where
  "HasCapabilityWithCapacity s name value =
     (case Capabilities s of
        None \<Rightarrow> (False, None)
      | Some cs \<Rightarrow> HasCapabilityWithCapacity_loop name value cs)"

text \<open>The first capability of a list whose name is present and matches under
  normalization: the entry a linear scan with first-match-wins decides on.\<close>

definition firstMatch :: "string \<Rightarrow> ResourceSkuCapabilities list \<Rightarrow> ResourceSkuCapabilities option" where
  "firstMatch name cs = find (\<lambda>capability. nameMatches capability name) cs"

section \<open>Locations, restrictions and zones\<close>

text \<open>The inner loop of IsAvailable over \<^verbatim>\<open>*s.Restrictions\<close>: it leaves with false at the
  first restriction of kind \<^verbatim>\<open>compute.Location\<close>; running to the end, true is returned.\<close>

fun IsAvailable_restrictions :: "ResourceSkuRestrictions list \<Rightarrow> bool" where
  "IsAvailable_restrictions [] = True"
| "IsAvailable_restrictions (restriction # rest) =
     (if r_Type restriction = compute_Location then False
      else IsAvailable_restrictions rest)"

text \<open>\<^verbatim>\<open>*locationInfo.Location\<close> is dereferenced unchecked: a nil location panics.\<close>

fun IsAvailable_loop :: "SKU \<Rightarrow> string \<Rightarrow> ResourceSkuLocationInfo list \<Rightarrow> panic + bool" where
  "IsAvailable_loop s location [] = Inr False"
| "IsAvailable_loop s location (locationInfo # rest) =
     (case li_Location locationInfo of
        None \<Rightarrow> Inl NilPointerDereference
      | Some l \<Rightarrow>
          if stringEqualsWithNormalization l location then
            (case Restrictions s of
               Some rs \<Rightarrow> Inr (IsAvailable_restrictions rs)
             | None \<Rightarrow> Inr True)
          else IsAvailable_loop s location rest)"

definition IsAvailable :: "SKU \<Rightarrow> string \<Rightarrow> panic + bool" where
  "IsAvailable s location =
     (case LocationInfo s of
        None \<Rightarrow> Inr False
      | Some lis \<Rightarrow> IsAvailable_loop s location lis)"

fun IsRestricted_values :: "string \<Rightarrow> ResourceSkuRestrictions \<Rightarrow> string list \<Rightarrow> bool" where
  "IsRestricted_values location restriction [] = False"
| "IsRestricted_values location restriction (candidate # rest) =
     (if stringEqualsWithNormalization candidate location \<and> r_Type restriction = compute_Location
      then True
      else IsRestricted_values location restriction rest)"

fun IsRestricted_loop :: "string \<Rightarrow> ResourceSkuRestrictions list \<Rightarrow> bool" where
  "IsRestricted_loop location [] = False"
| "IsRestricted_loop location (restriction # rest) =
     (case r_Values restriction of
        None \<Rightarrow> IsRestricted_loop location rest
      | Some vs \<Rightarrow>
          if IsRestricted_values location restriction vs then True
          else IsRestricted_loop location rest)"

definition IsRestricted :: "SKU \<Rightarrow> string \<Rightarrow> bool" where
  "IsRestricted s location =
     (case Restrictions s of
        None \<Rightarrow> False
      | Some rs \<Rightarrow> IsRestricted_loop location rs)"

definition IsResourceType :: "SKU \<Rightarrow> string \<Rightarrow> bool" where
  "IsResourceType s t =
     (case ResourceType s of
        None \<Rightarrow> False
      | Some rt \<Rightarrow> stringEqualsWithNormalization rt t)"

text \<open>AvailabilityZones keeps two \<^verbatim>\<open>map[string]bool\<close>, the available and the restricted
  zones. A loop either runs on with its maps, or leaves the function with \<^verbatim>\<open>return nil\<close>,
  or panics on a nil pointer.\<close>

type_synonym zones = "string \<rightharpoonup> bool"

datatype 'st outcome = Next 'st | Return_nil | Panics

text \<open>\<^verbatim>\<open>for _, zone := range zs { m[zone] = true }\<close>\<close>

definition addZones :: "string list \<Rightarrow> zones \<Rightarrow> zones" where
  "addZones zs m = fold (\<lambda>zone m. m(zone \<mapsto> True)) zs m"

text \<open>The loop over \<^verbatim>\<open>*restriction.Values\<close>; \<^verbatim>\<open>restriction.RestrictionInfo.Zones\<close> reads
  through the pointer RestrictionInfo unchecked.\<close>

fun AvailabilityZones_values ::
  "string \<Rightarrow> ResourceSkuRestrictions \<Rightarrow> string list \<Rightarrow> zones \<Rightarrow> zones outcome" where
  "AvailabilityZones_values location restriction [] restrictedZones = Next restrictedZones"
| "AvailabilityZones_values location restriction (candidate # rest) restrictedZones =
     (if stringEqualsWithNormalization candidate location then
        if r_Type restriction = compute_Location then Return_nil
        else
          (case r_RestrictionInfo restriction of
             None \<Rightarrow> Panics
           | Some info \<Rightarrow>
               (case ri_Zones info of
                  None \<Rightarrow> AvailabilityZones_values location restriction rest restrictedZones
                | Some zs \<Rightarrow>
                    AvailabilityZones_values location restriction rest
                      (addZones zs restrictedZones)))
      else AvailabilityZones_values location restriction rest restrictedZones)"

fun AvailabilityZones_restrictions ::
  "string \<Rightarrow> ResourceSkuRestrictions list \<Rightarrow> zones \<Rightarrow> zones outcome" where
  "AvailabilityZones_restrictions location [] restrictedZones = Next restrictedZones"
| "AvailabilityZones_restrictions location (restriction # rest) restrictedZones =
     (case r_Values restriction of
        None \<Rightarrow> AvailabilityZones_restrictions location rest restrictedZones
      | Some vs \<Rightarrow>
          (case AvailabilityZones_values location restriction vs restrictedZones of
             Next restrictedZones' \<Rightarrow> AvailabilityZones_restrictions location rest restrictedZones'
           | Return_nil \<Rightarrow> Return_nil
           | Panics \<Rightarrow> Panics))"

text \<open>The outer loop over \<^verbatim>\<open>*s.LocationInfo\<close>; \<^verbatim>\<open>*locationInfo.Location\<close> and
  \<^verbatim>\<open>*locationInfo.Zones\<close> are dereferenced unchecked.\<close>

fun AvailabilityZones_loop ::
  "SKU \<Rightarrow> string \<Rightarrow> ResourceSkuLocationInfo list \<Rightarrow> zones \<times> zones \<Rightarrow> (zones \<times> zones) outcome" where
  "AvailabilityZones_loop s location [] st = Next st"
| "AvailabilityZones_loop s location (locationInfo # rest) (availableZones, restrictedZones) =
     (case li_Location locationInfo of
        None \<Rightarrow> Panics
      | Some l \<Rightarrow>
          if stringEqualsWithNormalization l location then
            (case li_Zones locationInfo of
               None \<Rightarrow> Panics
             | Some zs \<Rightarrow>
                 (case Restrictions s of
                    None \<Rightarrow>
                      AvailabilityZones_loop s location rest (addZones zs availableZones, restrictedZones)
                  | Some rs \<Rightarrow>
                      (case AvailabilityZones_restrictions location rs restrictedZones of
                         Next restrictedZones' \<Rightarrow>
                           AvailabilityZones_loop s location rest
                             (addZones zs availableZones, restrictedZones')
                       | Return_nil \<Rightarrow> Return_nil
                       | Panics \<Rightarrow> Panics)))
          else AvailabilityZones_loop s location rest (availableZones, restrictedZones))"

text \<open>\<^verbatim>\<open>for zone := range restrictedZones { delete(availableZones, zone) }\<close>\<close>

definition deleteZones :: "zones \<Rightarrow> zones \<Rightarrow> zones" where
  "deleteZones restrictedZones availableZones =
     (\<lambda>zone. if restrictedZones zone \<noteq> None then None else availableZones zone)"

text \<open>The result is \<open>Inl\<close> for a panic, \<open>Inr None\<close> for the nil map and \<open>Inr (Some m)\<close>
  for a map; \<^verbatim>\<open>*s.LocationInfo\<close> is dereferenced unchecked.\<close>

definition AvailabilityZones :: "SKU \<Rightarrow> string \<Rightarrow> panic + zones option" where
  "AvailabilityZones s location =
     (case LocationInfo s of
        None \<Rightarrow> Inl NilPointerDereference
      | Some lis \<Rightarrow>
          (case AvailabilityZones_loop s location lis (Map.empty, Map.empty) of
             Next (availableZones, restrictedZones) \<Rightarrow>
               Inr (Some (deleteZones restrictedZones availableZones))
           | Return_nil \<Rightarrow> Inr None
           | Panics \<Rightarrow> Inl NilPointerDereference))"

section \<open>Structural equality\<close>

definition Equal :: "SKU \<Rightarrow> SKU \<Rightarrow> bool" where
  "Equal s other =
     (let (location, localErr) = GetLocation s;
          (otherLocation, otherErr) = GetLocation s
      in stringEqualsWithNormalization (GetResourceType s) (GetResourceType other) \<and>
         stringEqualsWithNormalization (GetName s) (GetName other) \<and>
         stringEqualsWithNormalization location otherLocation \<and>
         localErr \<noteq> None \<and>
         otherErr \<noteq> None)"

section \<open>Wrapping raw records\<close>

text \<open>\<^verbatim>\<open>out := make([]SKU, len(in))\<close> is a list of zero values; the loop stores the converted
  value of each index.\<close>

definition Wrap :: "ResourceSku list \<Rightarrow> SKU list" where
  "Wrap inp =
     fold (\<lambda>(index, value) out. out[index := SKU value]) (enumerate 0 inp)
       (replicate (length inp) zeroSKU)"

section \<open>Sample records\<close>

definition sku_vCPUs_8 :: SKU where
  "sku_vCPUs_8 = zeroSKU\<lparr>Capabilities := Some [\<lparr>cap_Name = Some ''vCPUs'', cap_Value = Some ''8''\<rparr>]\<rparr>"

section \<open>Properties\<close>

text \<open>
  C10: GetName and GetResourceType are total functions returning a plain string (no error
  component): the field's value exactly when the field is present, the empty string when it
  is absent.
\<close>

theorem GetName_GetResourceType_total:
  "GetName (s\<lparr>Name := Some n\<rparr>) = n \<and> GetName (s\<lparr>Name := None\<rparr>) = '''' \<and>
   GetResourceType (s\<lparr>ResourceType := Some t\<rparr>) = t \<and>
   GetResourceType (s\<lparr>ResourceType := None\<rparr>) = '''' \<and>
   GetName s = (case Name s of Some n \<Rightarrow> n | None \<Rightarrow> '''') \<and>
   GetResourceType s = (case ResourceType s of Some t \<Rightarrow> t | None \<Rightarrow> '''')"
  by (simp add: GetName_def GetResourceType_def)

text \<open>
  C8: GetLocation returns the sole entry and no error exactly when the locations collection
  is present with exactly one entry; an absent collection, an empty one and one with several
  entries each give their own error, the three errors pairwise distinct, and the function is
  total (the index 0 is read only from a one-element list).
\<close>

theorem GetLocation_cases:
  "GetLocation s =
     (case Locations s of
        None \<Rightarrow> ('''', Some (Errorf ''ErrSKULocationNil''))
      | Some [] \<Rightarrow> ('''', Some (Errorf ''ErrNoSKULocations''))
      | Some [l] \<Rightarrow> (l, None)
      | Some (l # l' # ls) \<Rightarrow> ('''', Some (Errorf ''ErrMultipleSKULocations''))) \<and>
   (snd (GetLocation s) = None) = (\<exists>l. Locations s = Some [l]) \<and>
   snd (GetLocation (s\<lparr>Locations := None\<rparr>)) \<noteq> snd (GetLocation (s\<lparr>Locations := Some []\<rparr>)) \<and>
   snd (GetLocation (s\<lparr>Locations := None\<rparr>))
     \<noteq> snd (GetLocation (s\<lparr>Locations := Some (l1 # l2 # ls)\<rparr>)) \<and>
   snd (GetLocation (s\<lparr>Locations := Some []\<rparr>))
     \<noteq> snd (GetLocation (s\<lparr>Locations := Some (l1 # l2 # ls)\<rparr>)) \<and>
   snd (GetLocation (s\<lparr>Locations := None\<rparr>)) \<noteq> None \<and>
   snd (GetLocation (s\<lparr>Locations := Some []\<rparr>)) \<noteq> None \<and>
   snd (GetLocation (s\<lparr>Locations := Some (l1 # l2 # ls)\<rparr>)) \<noteq> None"
  by (auto simp: GetLocation_def split: option.splits list.splits)

lemma Wrap_loop:
  "length out = k + length xs \<Longrightarrow>
   fold (\<lambda>(index, value) out. out[index := SKU value]) (enumerate k xs) out
     = take k out @ map SKU xs"
proof (induction xs arbitrary: k out)
  case Nil
  then show ?case by simp
next
  case (Cons x xs)
  from Cons.prems have len: "length (out[k := SKU x]) = Suc k + length xs" and k: "k < length out"
    by simp_all
  from k have "take (Suc k) (out[k := SKU x]) = take k out @ [SKU x]"
    by (simp add: take_Suc_conv_app_nth)
  with Cons.IH [OF len] show ?case by simp
qed

lemma Wrap_map: "Wrap inp = map SKU inp"
  using Wrap_loop [of "replicate (length inp) zeroSKU" 0 inp] by (simp add: Wrap_def)

text \<open>
  C9: Wrap of N raw records is a list of exactly N wrapped records in the same order, the
  i-th output being the conversion of the i-th input with the same field values; nothing is
  filtered or validated.
\<close>

theorem Wrap_one_to_one:
  "length (Wrap inp) = length inp \<and> Wrap inp = map SKU inp \<and> Wrap inp = inp \<and>
   (\<forall>i < length inp. Wrap inp ! i = SKU (inp ! i) \<and> Wrap inp ! i = inp ! i)"
  by (simp add: Wrap_map SKU_def [abs_def])

theorem Wrap_one_to_one_witness:
  "length (Wrap [zeroSKU, zeroSKU\<lparr>Name := Some ''Standard_D8s_v3''\<rparr>]) = 2 \<and>
   (1::nat) < length [zeroSKU, zeroSKU\<lparr>Name := Some ''Standard_D8s_v3''\<rparr>] \<and>
   Wrap [zeroSKU, zeroSKU\<lparr>Name := Some ''Standard_D8s_v3''\<rparr>] ! 1
     = zeroSKU\<lparr>Name := Some ''Standard_D8s_v3''\<rparr>"
  using Wrap_one_to_one [of "[zeroSKU, zeroSKU\<lparr>Name := Some ''Standard_D8s_v3''\<rparr>]"]
  by (simp add: SKU_def)

text \<open>
  C3: Equal s other holds exactly when the resource types match under normalization, the
  names match under normalization, the two compared locations match under normalization and
  both location resolutions ended in an error; both compared locations and both errors are
  resolved from s itself, so the locations of the other record play no part.
\<close>

theorem Equal_iff:
  "Equal s other =
     (stringEqualsWithNormalization (GetResourceType s) (GetResourceType other) \<and>
      stringEqualsWithNormalization (GetName s) (GetName other) \<and>
      stringEqualsWithNormalization (fst (GetLocation s)) (fst (GetLocation s)) \<and>
      snd (GetLocation s) \<noteq> None \<and> snd (GetLocation s) \<noteq> None) \<and>
   Equal s (other\<lparr>Locations := ls\<rparr>) = Equal s other"
  by (simp add: Equal_def GetResourceType_def GetName_def split: prod.splits)

lemma GetCapabilityIntegerQuantity_loop_find:
  "GetCapabilityIntegerQuantity_loop name cs =
     (case find (\<lambda>c. cap_Name c = Some name) cs of
        None \<Rightarrow> (- 1, Some (ErrCapabilityNotFound name))
      | Some c \<Rightarrow>
          (case cap_Value c of
             None \<Rightarrow> (- 1, Some (ErrCapabilityValueNil name))
           | Some v \<Rightarrow>
               (case snd (ParseInt v) of
                  Some e \<Rightarrow> (- 1, Some (ErrCapabilityValueParse name v e))
                | None \<Rightarrow> (fst (ParseInt v), None))))"
  by (induction cs) (simp_all split: option.splits prod.splits)

lemma GetCapabilityFloatQuantity_loop_find:
  "GetCapabilityFloatQuantity_loop ParseFloat name cs =
     (case find (\<lambda>c. cap_Name c = Some name) cs of
        None \<Rightarrow> (- 1, Some (ErrCapabilityNotFound name))
      | Some c \<Rightarrow>
          (case cap_Value c of
             None \<Rightarrow> (- 1, Some (ErrCapabilityValueNil name))
           | Some v \<Rightarrow>
               (case snd (ParseFloat v) of
                  Some e \<Rightarrow> (- 1, Some (ErrCapabilityValueParse name v e))
                | None \<Rightarrow> (fst (ParseFloat v), None))))"
  by (induction cs) (simp_all split: option.splits prod.splits)

lemma HasCapability_loop_find:
  "HasCapability_loop name cs =
     (case firstMatch name cs of
        None \<Rightarrow> False
      | Some c \<Rightarrow>
          (case cap_Value c of
             None \<Rightarrow> False
           | Some v \<Rightarrow> stringEqualsWithNormalization v CapabilitySupported))"
  by (induction cs) (simp_all add: firstMatch_def)

lemma HasCapabilityWithCapacity_loop_find:
  "HasCapabilityWithCapacity_loop name threshold cs =
     (case firstMatch name cs of
        None \<Rightarrow> (False, None)
      | Some c \<Rightarrow>
          (case cap_Value c of
             None \<Rightarrow> (False, None)
           | Some v \<Rightarrow>
               (case snd (ParseInt v) of
                  Some e \<Rightarrow> (False, Some (Wrapf e (wrapMessage v)))
                | None \<Rightarrow> (threshold \<le> fst (ParseInt v), None))))"
  by (induction cs) (simp_all add: firstMatch_def split: option.splits prod.splits)

lemmas normalization_defs =
  stringEqualsWithNormalization_def normalizeString_def toLower_def isSeparator_def

lemmas ParseInt_defs = ParseInt_def ParseUint_def digit_def maxUint64_def

text \<open>
  C7: HasCapabilityWithCapacity returns (true, nil) exactly when the first capability whose
  name matches under normalization has a value that parses as an integer at least the
  threshold; a parseable value below the threshold gives (false, nil), a value that does not
  parse gives false with an error, and an absent collection, an absent name or an absent
  value give (false, nil).
\<close>

theorem HasCapabilityWithCapacity_first_match:
  "HasCapabilityWithCapacity s name threshold =
     (case Capabilities s of
        None \<Rightarrow> (False, None)
      | Some cs \<Rightarrow>
          (case firstMatch name cs of
             None \<Rightarrow> (False, None)
           | Some c \<Rightarrow>
               (case cap_Value c of
                  None \<Rightarrow> (False, None)
                | Some v \<Rightarrow>
                    (case snd (ParseInt v) of
                       Some e \<Rightarrow> (False, Some (Wrapf e (wrapMessage v)))
                     | None \<Rightarrow> (threshold \<le> fst (ParseInt v), None))))) \<and>
   (HasCapabilityWithCapacity s name threshold = (True, None)) =
     (\<exists>cs c v. Capabilities s = Some cs \<and> firstMatch name cs = Some c \<and> cap_Value c = Some v \<and>
        snd (ParseInt v) = None \<and> threshold \<le> fst (ParseInt v))"
  by (auto simp: HasCapabilityWithCapacity_def HasCapabilityWithCapacity_loop_find
      split: option.splits)

text \<open>
  C6: HasCapability never returns an error (its result is a plain boolean); it is false for
  an absent collection and for an absent name, and otherwise it is decided by the first
  capability whose name matches under normalization: true exactly when that capability's
  value is present and matches "True" under normalization, as "True", "true" and "TRUE" do
  and "False" does not.
\<close>

theorem HasCapability_first_match:
  "HasCapability s name =
     (case Capabilities s of
        None \<Rightarrow> False
      | Some cs \<Rightarrow>
          (case firstMatch name cs of
             None \<Rightarrow> False
           | Some c \<Rightarrow>
               (case cap_Value c of
                  None \<Rightarrow> False
                | Some v \<Rightarrow> stringEqualsWithNormalization v ''True''))) \<and>
   stringEqualsWithNormalization ''True'' ''True'' \<and>
   stringEqualsWithNormalization ''true'' ''True'' \<and>
   stringEqualsWithNormalization ''TRUE'' ''True'' \<and>
   stringEqualsWithNormalization ''T_r-u E'' ''True'' \<and>
   \<not> stringEqualsWithNormalization ''False'' ''True'' \<and>
   HasCapability (s\<lparr>Capabilities := None\<rparr>) name = False \<and>
   HasCapability (s\<lparr>Capabilities := Some
       [\<lparr>cap_Name = Some ''EphemeralOSDiskSupported'', cap_Value = Some ''TRUE''\<rparr>,
        \<lparr>cap_Name = Some ''ephemeralosdisksupported'', cap_Value = Some ''False''\<rparr>]\<rparr>)
     ''ephemeral_OS_disk_supported'' = True \<and>
   HasCapability (s\<lparr>Capabilities := Some
       [\<lparr>cap_Name = None, cap_Value = Some ''True''\<rparr>,
        \<lparr>cap_Name = Some ''EphemeralOSDiskSupported'', cap_Value = Some ''False''\<rparr>,
        \<lparr>cap_Name = Some ''EphemeralOSDiskSupported'', cap_Value = Some ''True''\<rparr>]\<rparr>)
     ''EphemeralOSDiskSupported'' = False"
  apply (intro conjI)
  subgoal by (simp add: HasCapability_def HasCapability_loop_find CapabilitySupported_def
      split: option.splits)
  subgoal by (simp add: normalization_defs)
  subgoal by (simp add: normalization_defs)
  subgoal by (simp add: normalization_defs)
  subgoal by (simp add: normalization_defs)
  subgoal by (simp add: normalization_defs)
  subgoal by (simp add: HasCapability_def)
  subgoal by (simp add: HasCapability_def nameMatches_def CapabilitySupported_def normalization_defs)
  subgoal by (simp add: HasCapability_def nameMatches_def CapabilitySupported_def normalization_defs)
  done

text \<open>
  C1 (the code at an input where the claim fails): GetCapabilityIntegerQuantity compares the
  capability name with \<^verbatim>\<open>==\<close>, not under normalization. On a SKU whose only capability is
  vCPUs = "8", the name "vcpus" matches "vCPUs" under normalization and
  HasCapabilityWithCapacity finds it, but GetCapabilityIntegerQuantity returns -1 and
  CapabilityNotFound.
\<close>

theorem GetCapabilityIntegerQuantity_exact_name_only:
  "stringEqualsWithNormalization ''vCPUs'' ''vcpus'' \<and>
   GetCapabilityIntegerQuantity sku_vCPUs_8 ''vcpus'' = (- 1, Some (ErrCapabilityNotFound ''vcpus'')) \<and>
   GetCapabilityIntegerQuantity sku_vCPUs_8 ''vCPUs'' = (8, None) \<and>
   HasCapabilityWithCapacity sku_vCPUs_8 ''vcpus'' 8 = (True, None)"
  apply (intro conjI)
  subgoal by (simp add: normalization_defs)
  subgoal by (simp add: GetCapabilityIntegerQuantity_def sku_vCPUs_8_def)
  subgoal by (simp add: GetCapabilityIntegerQuantity_def sku_vCPUs_8_def ParseInt_defs)
  subgoal by (simp add: HasCapabilityWithCapacity_def sku_vCPUs_8_def nameMatches_def
      normalization_defs ParseInt_defs)
  done

end
